theory Spec2Isabelle
  imports Complex_Main "HOL-Library.Sublist"
begin

section \<open>The flotation predictor (main.py) as a shallow embedding\<close>

text \<open>
  main.py is a Streamlit script: the framework runs it from top to bottom on every
  rerun, widgets return their current value, and \<open>st.cache_resource\<close> keeps the
  results of \<open>load_model\<close> for the lifetime of the process. One run of the script is
  modelled as a function from the things it reads (what \<open>joblib.load\<close> does at that
  moment, the widget states, whether the rerun comes from a click on the button) and the
  process state (the resource cache) to the elements it emits, how the run ends, and
  the new process state.

  Python strings are modelled as \<open>string\<close> holding their UTF-8 bytes. The purely
  static presentation calls (page configuration, header, captions, title, the two
  markdown texts, divider and expander) read nothing and decide nothing; they are
  left out of the element list.
\<close>

subsection \<open>Exceptions\<close>

datatype exn_class =
    FileNotFoundError | PermissionError | IsADirectoryError | EOFError
  | ValueError | TypeError | IndexError | AttributeError | StreamlitAPIException
  | OtherException string
  | KeyboardInterrupt | SystemExit | GeneratorExit

datatype py_exn = Exn (cls: exn_class) (exn_text: string)

text \<open>\<open>except Exception\<close> matches every class but the three that derive from
  \<open>BaseException\<close> only.\<close>

fun is_Exception :: "exn_class \<Rightarrow> bool" where
  "is_Exception KeyboardInterrupt = False"
| "is_Exception SystemExit = False"
| "is_Exception GeneratorExit = False"
| "is_Exception _ = True"

subsection \<open>Values\<close>

text \<open>A slider argument or value is a Python \<open>int\<close> or \<open>float\<close>.\<close>

datatype py_num = IntV int | FloatV rat

text \<open>A float is given by the exact value it denotes, or is one of the specials.\<close>

datatype py_float = Finite rat | PosInf | NegInf | NaN

text \<open>What \<open>model.predict\<close> may hand back: a sequence (list or array), or something
  that is not one.\<close>

datatype py_obj =
    PyFloat py_float | PyInt int | PyStr string | PyNone | PySeq "py_obj list"

type_synonym dataframe = "(string \<times> py_num list) list"

record model =
  feature_names :: "string list option"
  predict :: "dataframe \<Rightarrow> py_exn + py_obj"

subsection \<open>Elements and process state\<close>

datatype element =
    Slider string py_num
  | Button string
  | Subheader string
  | Success string
  | Info string
  | Error string
  | Warning string

datatype outcome = Completed | Uncaught py_exn

type_synonym path = string

text \<open>The cache of \<open>st.cache_resource\<close> keeps, for each argument, the returned value
  and the elements the call emitted (they are replayed on a hit). \<open>reads\<close> and
  \<open>predict_calls\<close> are instrumentation: the calls of \<open>joblib.load\<close> and of
  \<open>model.predict\<close> made so far.\<close>

record app_state =
  cache :: "path \<rightharpoonup> (model option \<times> element list)"
  reads :: "path list"
  predict_calls :: "dataframe list"

definition fresh :: app_state where
  "fresh = \<lparr>cache = Map.empty, reads = [], predict_calls = []\<rparr>"

subsection \<open>Model loader\<close>

definition not_found_text :: "path \<Rightarrow> string" where
  "not_found_text model_path =
     ''Error: No se encontr'' @ [CHR 0xC3, CHR 0xB3] @ '' el archivo del modelo en ''
     @ model_path
     @ ''. Aseg'' @ [CHR 0xC3, CHR 0xBA] @ ''rate de que el archivo del modelo est''
     @ [CHR 0xC3, CHR 0xA9] @ '' en el directorio correcto.''"

text \<open>The body of \<open>load_model\<close>: one call of \<open>joblib.load\<close> on the given path; only
  \<open>FileNotFoundError\<close> is handled, any other exception leaves the function.\<close>

definition load_model ::
  "(path \<Rightarrow> py_exn + model) \<Rightarrow> path \<Rightarrow> app_state
     \<Rightarrow> ((py_exn + model option) \<times> element list) \<times> app_state" where
  "load_model joblib_load model_path st =
     (let st' = st\<lparr>reads := reads st @ [model_path]\<rparr> in
      case joblib_load model_path of
        Inr m \<Rightarrow> ((Inr (Some m), []), st')
      | Inl e \<Rightarrow>
          if cls e = FileNotFoundError
          then ((Inr None, [Error (not_found_text model_path)]), st')
          else ((Inl e, []), st'))"

text \<open>\<open>@st.cache_resource\<close>: a hit returns the stored value without running the body;
  a miss runs it and stores what it returned; a call that raises stores nothing.\<close>

definition load_model_cached ::
  "(path \<Rightarrow> py_exn + model) \<Rightarrow> path \<Rightarrow> app_state
     \<Rightarrow> ((py_exn + model option) \<times> element list) \<times> app_state" where
  "load_model_cached joblib_load model_path st =
     (case cache st model_path of
        Some (v, els) \<Rightarrow> ((Inr v, els), st)
      | None \<Rightarrow>
          (case load_model joblib_load model_path st of
             ((Inr v, els), st') \<Rightarrow>
               ((Inr v, els), st'\<lparr>cache := (cache st')(model_path \<mapsto> (v, els))\<rparr>)
           | ((Inl e, els), st') \<Rightarrow> ((Inl e, els), st')))"

subsection \<open>Input form\<close>

text \<open>
  \<open>st.slider\<close> with the arguments min_value, max_value, value, step and the state of
  the widget: \<open>None\<close> while the user has not touched it, otherwise the position the
  user asked for. The four arguments must be of one numeric type, the step positive
  and the default inside the range, else the call raises (the text of that exception is
  not relied on). The thumb rests on \<open>min_value + k * step\<close> inside the range, so
  a request beyond an end is clamped to it. The value has the type of the arguments.
\<close>

definition clamp :: "rat \<Rightarrow> rat \<Rightarrow> rat \<Rightarrow> rat" where
  "clamp lo hi x = max lo (min hi x)"

fun slider :: "py_num \<Rightarrow> py_num \<Rightarrow> py_num \<Rightarrow> py_num \<Rightarrow> rat option \<Rightarrow> py_exn + py_num" where
  "slider (IntV lo) (IntV hi) (IntV v) (IntV step) ws =
     (if step \<le> 0 \<or> v < lo \<or> hi < v
      then Inl (Exn StreamlitAPIException ''invalid slider arguments'')
      else Inr (IntV (case ws of
                        None \<Rightarrow> v
                      | Some r \<Rightarrow>
                          lo + step * \<lfloor>(clamp (of_int lo) (of_int hi) r - of_int lo) / of_int step\<rfloor>)))"
| "slider (FloatV lo) (FloatV hi) (FloatV v) (FloatV step) ws =
     (if step \<le> 0 \<or> v < lo \<or> hi < v
      then Inl (Exn StreamlitAPIException ''invalid slider arguments'')
      else Inr (FloatV (case ws of
                          None \<Rightarrow> v
                        | Some r \<Rightarrow> lo + step * of_int \<lfloor>(clamp lo hi r - lo) / step\<rfloor>)))"
| "slider _ _ _ _ _ = Inl (Exn StreamlitAPIException ''slider arguments of mixed types'')"

definition AmineFlow :: "rat option \<Rightarrow> py_exn + py_num" where
  "AmineFlow ws = slider (IntV 241) (IntV 740) (IntV 300) (IntV 1) ws"

definition AirFlow :: "rat option \<Rightarrow> py_exn + py_num" where
  "AirFlow ws = slider (IntV 175) (IntV 372) (IntV 180) (IntV 1) ws"

definition Iron :: "rat option \<Rightarrow> py_exn + py_num" where
  "Iron ws = slider (IntV 62) (IntV 69) (IntV 63) (IntV 1) ws"

definition amine_label :: string where
  "amine_label = ''Flujo de Amina (kg/min)''"

definition air_label :: string where
  "air_label = ''Flujo de Aire Columna 1(kg/min)''"

definition iron_label :: string where
  "iron_label = ''Hierro Concentrado (%)''"

subsection \<open>Formatting with \<open>:.2f\<close>\<close>

definition digit_char :: "nat \<Rightarrow> char" where
  "digit_char d = ''0123456789'' ! d"

fun dec_digits :: "nat \<Rightarrow> string" where
  "dec_digits n =
     (if n < 10 then [digit_char n] else dec_digits (n div 10) @ [digit_char (n mod 10)])"

declare dec_digits.simps [simp del]

text \<open>Rounding to the nearest integer, a tie going to the even neighbour: the
  conversion of a float to decimal is correctly rounded on its exact value.\<close>

definition round_half_even :: "rat \<Rightarrow> int" where
  "round_half_even y =
     (let f = \<lfloor>y\<rfloor>; d = y - of_int f in
      if d < 1 / 2 then f
      else if 1 / 2 < d then f + 1
      else if even f then f else f + 1)"

text \<open>The number of hundredths nearest to the magnitude of \<open>x\<close>.\<close>

definition hundredths :: "rat \<Rightarrow> nat" where
  "hundredths x = nat (round_half_even (\<bar>x\<bar> * 100))"

text \<open>Fixed-point notation with two digits after the point. (The sign of a negative
  zero is not represented by \<open>Finite\<close>.)\<close>

definition fixed2 :: "rat \<Rightarrow> string" where
  "fixed2 x =
     (let n = hundredths x in
      (if x < 0 then ''-'' else [])
      @ dec_digits (n div 100) @ ''.''
      @ [digit_char (n mod 100 div 10), digit_char (n mod 10)])"

text \<open>\<open>format(x, '.2f')\<close>: defined on floats and ints, an exception on anything else.\<close>

fun format_2f :: "py_obj \<Rightarrow> py_exn + string" where
  "format_2f (PyFloat (Finite x)) = Inr (fixed2 x)"
| "format_2f (PyFloat PosInf) = Inr ''inf''"
| "format_2f (PyFloat NegInf) = Inr ''-inf''"
| "format_2f (PyFloat NaN) = Inr ''nan''"
| "format_2f (PyInt i) = Inr (fixed2 (of_int i))"
| "format_2f (PyStr s) =
     Inl (Exn ValueError
       (''Unknown format code '' @ [CHR 0x27] @ ''f'' @ [CHR 0x27]
        @ '' for object of type '' @ [CHR 0x27] @ ''str'' @ [CHR 0x27]))"
| "format_2f PyNone =
     Inl (Exn TypeError ''unsupported format string passed to NoneType.__format__'')"
| "format_2f (PySeq xs) =
     Inl (Exn TypeError ''unsupported format string passed to list.__format__'')"

text \<open>\<open>prediction_value[0]\<close>. The first character of a string is its first byte and
  the continuation bytes that follow it.\<close>

definition is_continuation :: "char \<Rightarrow> bool" where
  "is_continuation c = (128 \<le> (of_char c :: nat) \<and> (of_char c :: nat) < 192)"

fun getitem0 :: "py_obj \<Rightarrow> py_exn + py_obj" where
  "getitem0 (PySeq (x # xs)) = Inr x"
| "getitem0 (PySeq []) = Inl (Exn IndexError ''list index out of range'')"
| "getitem0 (PyStr (c # cs)) = Inr (PyStr (c # takeWhile is_continuation cs))"
| "getitem0 (PyStr []) = Inl (Exn IndexError ''string index out of range'')"
| "getitem0 PyNone =
     Inl (Exn TypeError ([CHR 0x27] @ ''NoneType'' @ [CHR 0x27] @ '' object is not subscriptable''))"
| "getitem0 (PyFloat x) =
     Inl (Exn TypeError ([CHR 0x27] @ ''float'' @ [CHR 0x27] @ '' object is not subscriptable''))"
| "getitem0 (PyInt i) =
     Inl (Exn TypeError ([CHR 0x27] @ ''int'' @ [CHR 0x27] @ '' object is not subscriptable''))"

subsection \<open>Prediction\<close>

definition button_label :: string where
  "button_label = [CHR 0xF0, CHR 0x9F, CHR 0x9A, CHR 0x80] @ '' Predecir Rendimiento''"

definition subheader_text :: string where
  "subheader_text =
     [CHR 0xF0, CHR 0x9F, CHR 0x93, CHR 0x88] @ '' Resultado de la Predicci''
     @ [CHR 0xC3, CHR 0xB3] @ ''n''"

definition success_text :: "string \<Rightarrow> string" where
  "success_text formatted =
     ''**Rendimiento Predicho:** '' @ [CHR 0x60] @ formatted @ ''%'' @ [CHR 0x60]"

definition info_text :: string where
  "info_text =
     ''Este valor representa el porcentaje estimado del producto deseado que se recuperar''
     @ [CHR 0xC3, CHR 0xA1] @ ''.''"

definition error_text :: "py_exn \<Rightarrow> string" where
  "error_text e =
     ''Ocurri'' @ [CHR 0xC3, CHR 0xB3] @ '' un error durante la predicci''
     @ [CHR 0xC3, CHR 0xB3] @ ''n: '' @ exn_text e"

definition warning_text :: string where
  "warning_text =
     ''El modelo no pudo ser cargado. Por favor, verifica la ruta del archivo del modelo.''"

definition df_input :: "py_num \<Rightarrow> py_num \<Rightarrow> py_num \<Rightarrow> dataframe" where
  "df_input amine air iron =
     [(''FlujoAmina'', [amine]), (''FlujoAireColumna1'', [air]), (''Hierro Concentrado'', [iron])]"

text \<open>\<open>except Exception as e\<close> after the elements \<open>els\<close> were emitted in the
  \<open>try\<close> block: an \<open>Exception\<close> is shown with \<open>st.error\<close> and the script goes on,
  anything else leaves the script.\<close>

definition except_Exception :: "element list \<Rightarrow> py_exn \<Rightarrow> element list \<times> outcome" where
  "except_Exception els e =
     (if is_Exception (cls e) then (els @ [Error (error_text e)], Completed)
      else (els, Uncaught e))"

text \<open>The body of the \<open>try\<close>: the call of \<open>model.predict\<close>, the subheader, then the
  f-string (index 0, then the format), the success box and the info box.\<close>

definition try_predict :: "model \<Rightarrow> dataframe \<Rightarrow> element list \<times> outcome" where
  "try_predict m df =
     (case predict m df of
        Inl e \<Rightarrow> except_Exception [] e
      | Inr prediction_value \<Rightarrow>
          (case getitem0 prediction_value of
             Inl e \<Rightarrow> except_Exception [Subheader subheader_text] e
           | Inr x \<Rightarrow>
               (case format_2f x of
                  Inl e \<Rightarrow> except_Exception [Subheader subheader_text] e
                | Inr s \<Rightarrow>
                    ([Subheader subheader_text, Success (success_text s), Info info_text],
                     Completed))))"

text \<open>The block \<open>if model is not None: ... else: ...\<close>; \<open>clicked\<close> is what
  \<open>st.button\<close> returns in this run.\<close>

definition prediction_logic ::
  "model option \<Rightarrow> py_num \<Rightarrow> py_num \<Rightarrow> py_num \<Rightarrow> bool \<Rightarrow> app_state
     \<Rightarrow> (element list \<times> outcome) \<times> app_state" where
  "prediction_logic mdl amine air iron clicked st =
     (case mdl of
        Some m \<Rightarrow>
          if clicked then
            (let df = df_input amine air iron;
                 (els, out) = try_predict m df
             in ((Button button_label # els, out),
                 st\<lparr>predict_calls := predict_calls st @ [df]\<rparr>))
          else (([Button button_label], Completed), st)
      | None \<Rightarrow> (([Warning warning_text], Completed), st))"

subsection \<open>One run of the script, and a session\<close>

record user_input =
  amine_widget :: "rat option"
  air_widget :: "rat option"
  iron_widget :: "rat option"
  button_clicked :: bool

definition model_path :: path where
  "model_path = ''modeloproyecto.joblib''"

text \<open>The three sliders of the sidebar, in order; the first one that raises ends
  the run.\<close>

definition sidebar :: "user_input \<Rightarrow> py_exn + (py_num \<times> py_num \<times> py_num)" where
  "sidebar u =
     (case AmineFlow (amine_widget u) of
        Inl e \<Rightarrow> Inl e
      | Inr amine \<Rightarrow>
          (case AirFlow (air_widget u) of
             Inl e \<Rightarrow> Inl e
           | Inr air \<Rightarrow>
               (case Iron (iron_widget u) of
                  Inl e \<Rightarrow> Inl e
                | Inr iron \<Rightarrow> Inr (amine, air, iron))))"

definition sidebar_elements :: "py_num \<times> py_num \<times> py_num \<Rightarrow> element list" where
  "sidebar_elements v =
     (case v of (amine, air, iron) \<Rightarrow>
        [Slider amine_label amine, Slider air_label air, Slider iron_label iron])"

definition script ::
  "(path \<Rightarrow> py_exn + model) \<Rightarrow> user_input \<Rightarrow> app_state
     \<Rightarrow> (element list \<times> outcome) \<times> app_state" where
  "script joblib_load u st =
     (case load_model_cached joblib_load model_path st of
        ((Inl e, els0), st1) \<Rightarrow> ((els0, Uncaught e), st1)
      | ((Inr mdl, els0), st1) \<Rightarrow>
          (case sidebar u of
             Inl e \<Rightarrow> ((els0, Uncaught e), st1)
           | Inr (amine, air, iron) \<Rightarrow>
               (case prediction_logic mdl amine air iron (button_clicked u) st1 of
                  ((els, out), st2) \<Rightarrow>
                    ((els0 @ sidebar_elements (amine, air, iron) @ els, out), st2))))"

text \<open>A session is a sequence of reruns in one process, each with what is on disk
  and what the user did; \<open>session\<close> returns what each rerun showed and the final
  process state.\<close>

fun session ::
  "((path \<Rightarrow> py_exn + model) \<times> user_input) list \<Rightarrow> app_state
     \<Rightarrow> (element list \<times> outcome) list \<times> app_state" where
  "session [] st = ([], st)"
| "session ((jl, u) # rs) st =
     (case script jl u st of
        (r, st1) \<Rightarrow> (case session rs st1 of (outs, st2) \<Rightarrow> (r # outs, st2)))"

text \<open>The stub of the scenario: a model whose \<open>predict\<close> returns the one-element
  array holding the double nearest to 12.3456.\<close>

definition stub_model :: model where
  "stub_model =
     \<lparr>feature_names = None,
      predict = (\<lambda>df. Inr (PySeq [PyFloat (Finite (6949954944958149 / 562949953421312))]))\<rparr>"

subsection \<open>Reachable process states\<close>

text \<open>What the cache can hold: for a path, the value \<open>load_model\<close> returned together
  with the elements that call emitted, which is the error box exactly when the value
  is None.\<close>

definition cache_wf :: "app_state \<Rightarrow> bool" where
  "cache_wf st =
     (\<forall>p v els. cache st p = Some (v, els) \<longrightarrow>
        els = (case v of None \<Rightarrow> [Error (not_found_text p)] | Some m \<Rightarrow> []))"

subsection \<open>Concrete disks, users and models\<close>

definition disk_with_stub :: "path \<Rightarrow> py_exn + model" where
  "disk_with_stub p = Inr stub_model"

definition disk_missing :: "path \<Rightarrow> py_exn + model" where
  "disk_missing p = Inl (Exn FileNotFoundError (''No such file or directory: '' @ p))"

definition disk_unreadable :: "path \<Rightarrow> py_exn + model" where
  "disk_unreadable p = Inl (Exn PermissionError (''Permission denied: '' @ p))"

definition untouched :: user_input where
  "untouched =
     \<lparr>amine_widget = None, air_widget = None, iron_widget = None, button_clicked = False\<rparr>"

definition click :: user_input where
  "click =
     \<lparr>amine_widget = None, air_widget = None, iron_widget = None, button_clicked = True\<rparr>"



definition unchecked_model :: model where
  "unchecked_model =
     \<lparr>feature_names = Some [''amine'', ''air'', ''iron''],
      predict = (\<lambda>df. Inr (PySeq [PyFloat (Finite 2)]))\<rparr>"

definition checking_model :: model where
  "checking_model =
     \<lparr>feature_names = Some [''amine'', ''air'', ''iron''],
      predict = (\<lambda>df. if map fst df = [''amine'', ''air'', ''iron'']
                       then Inr (PySeq [PyFloat (Finite 2)])
                       else Inl (Exn ValueError ''feature_names mismatch''))\<rparr>"

section \<open>Properties\<close>

subsection \<open>Model loader and its cache\<close>

lemma load_model_reads:
  "load_model jl p st = (r, st') \<Longrightarrow> reads st' = reads st @ [p]"
  by (auto simp: load_model_def Let_def split: sum.splits if_splits)

lemma load_model_cached_hit:
  "cache st p = Some (v, els) \<Longrightarrow> load_model_cached jl p st = ((Inr v, els), st)"
  by (simp add: load_model_cached_def)

lemma load_model_cached_stores:
  "load_model_cached jl p st = ((Inr v, els), st') \<Longrightarrow> cache st' p = Some (v, els)"
  by (auto simp: load_model_cached_def load_model_def Let_def
           split: option.splits sum.splits if_splits prod.splits)




subsection \<open>Input form\<close>

lemma clamp_bounds: "lo \<le> hi \<Longrightarrow> lo \<le> clamp lo hi x \<and> clamp lo hi x \<le> hi"
  by (simp add: clamp_def max_def min_def)

lemma floor_clamp_bounds:
  assumes "lo \<le> hi"
  shows "lo \<le> \<lfloor>clamp (of_int lo) (of_int hi) r\<rfloor> \<and> \<lfloor>clamp (of_int lo) (of_int hi) r\<rfloor> \<le> hi"
proof -
  have b: "(of_int lo :: rat) \<le> clamp (of_int lo) (of_int hi) r \<and> clamp (of_int lo) (of_int hi) r \<le> of_int hi"
    using assms by (intro clamp_bounds) simp
  from b have "lo \<le> \<lfloor>clamp (of_int lo) (of_int hi) r\<rfloor>" by (simp add: le_floor_iff)
  moreover from b have "\<lfloor>clamp (of_int lo) (of_int hi) r\<rfloor> \<le> \<lfloor>of_int hi :: rat\<rfloor>"
    by (intro floor_mono) simp
  ultimately show ?thesis by simp
qed

lemma slider_int_unit:
  assumes "lo \<le> v" "v \<le> hi"
  shows "slider (IntV lo) (IntV hi) (IntV v) (IntV 1) ws =
           Inr (IntV (case ws of None \<Rightarrow> v | Some r \<Rightarrow> \<lfloor>clamp (of_int lo) (of_int hi) r\<rfloor>))"
  using assms by (cases ws) (auto simp: algebra_simps)

lemma slider_int_unit_bounds:
  assumes "lo \<le> v" "v \<le> hi"
  shows "\<exists>x. slider (IntV lo) (IntV hi) (IntV v) (IntV 1) ws = Inr (IntV x) \<and> lo \<le> x \<and> x \<le> hi"
proof (cases ws)
  case None
  then show ?thesis using assms by simp
next
  case (Some r)
  have "lo \<le> hi" using assms by simp
  from floor_clamp_bounds [OF this, of r] Some assms show ?thesis
    by (simp add: slider_int_unit)
qed

lemma AmineFlow_value:
  "AmineFlow ws = Inr (IntV (case ws of None \<Rightarrow> 300 | Some r \<Rightarrow> \<lfloor>clamp 241 740 r\<rfloor>))"
  unfolding AmineFlow_def by (simp add: slider_int_unit del: slider.simps split: option.splits)

lemma AirFlow_value:
  "AirFlow ws = Inr (IntV (case ws of None \<Rightarrow> 180 | Some r \<Rightarrow> \<lfloor>clamp 175 372 r\<rfloor>))"
  unfolding AirFlow_def by (simp add: slider_int_unit del: slider.simps split: option.splits)

lemma Iron_value:
  "Iron ws = Inr (IntV (case ws of None \<Rightarrow> 63 | Some r \<Rightarrow> \<lfloor>clamp 62 69 r\<rfloor>))"
  unfolding Iron_def by (simp add: slider_int_unit del: slider.simps split: option.splits)

lemma AmineFlow_range: "\<exists>a. AmineFlow ws = Inr (IntV a) \<and> 241 \<le> a \<and> a \<le> 740"
  unfolding AmineFlow_def by (rule slider_int_unit_bounds) simp_all

lemma AirFlow_range: "\<exists>a. AirFlow ws = Inr (IntV a) \<and> 175 \<le> a \<and> a \<le> 372"
  unfolding AirFlow_def by (rule slider_int_unit_bounds) simp_all

lemma Iron_range: "\<exists>a. Iron ws = Inr (IntV a) \<and> 62 \<le> a \<and> a \<le> 69"
  unfolding Iron_def by (rule slider_int_unit_bounds) simp_all

lemma sidebar_range:
  "\<exists>a f i. sidebar u = Inr (IntV a, IntV f, IntV i)
     \<and> 241 \<le> a \<and> a \<le> 740 \<and> 175 \<le> f \<and> f \<le> 372 \<and> 62 \<le> i \<and> i \<le> 69"
proof -
  obtain a where a: "AmineFlow (amine_widget u) = Inr (IntV a)" "241 \<le> a" "a \<le> 740"
    using AmineFlow_range by blast
  obtain f where f: "AirFlow (air_widget u) = Inr (IntV f)" "175 \<le> f" "f \<le> 372"
    using AirFlow_range by blast
  obtain i where i: "Iron (iron_widget u) = Inr (IntV i)" "62 \<le> i" "i \<le> 69"
    using Iron_range by blast
  have "sidebar u = Inr (IntV a, IntV f, IntV i)"
    by (simp add: sidebar_def a f i)
  with a f i show ?thesis by blast
qed


subsection \<open>Prediction block\<close>

lemma prediction_logic_None:
  "prediction_logic None a f i c st = (([Warning warning_text], Completed), st)"
  by (simp add: prediction_logic_def)

lemma prediction_logic_idle:
  "prediction_logic (Some m) a f i False st = (([Button button_label], Completed), st)"
  by (simp add: prediction_logic_def)

lemma prediction_logic_click:
  "prediction_logic (Some m) a f i True st =
     ((Button button_label # fst (try_predict m (df_input a f i)),
       snd (try_predict m (df_input a f i))),
      st\<lparr>predict_calls := predict_calls st @ [df_input a f i]\<rparr>)"
  by (simp add: prediction_logic_def Let_def split: prod.splits)

lemma prediction_logic_cache:
  "cache (snd (prediction_logic mdl a f i c st)) = cache st"
  by (cases mdl; cases c) (simp_all add: prediction_logic_None prediction_logic_idle prediction_logic_click)

lemma prediction_logic_reads:
  "reads (snd (prediction_logic mdl a f i c st)) = reads st"
  by (cases mdl; cases c) (simp_all add: prediction_logic_None prediction_logic_idle prediction_logic_click)

subsection \<open>The cache invariant\<close>

lemma load_model_cached_predict_calls:
  "predict_calls (snd (load_model_cached jl p st)) = predict_calls st"
  by (auto simp: load_model_cached_def load_model_def Let_def
           split: option.splits sum.splits if_splits prod.splits)

lemma cache_wf_fresh: "cache_wf fresh"
  by (simp add: cache_wf_def fresh_def)

lemma load_model_cached_wf:
  "cache_wf st \<Longrightarrow> cache_wf (snd (load_model_cached jl p st))"
  by (auto simp: cache_wf_def load_model_cached_def load_model_def Let_def
           split: option.splits sum.splits if_splits prod.splits)

lemma load_model_cached_elements:
  assumes "cache_wf st"
  shows "fst (load_model_cached jl p st) = (Inr None, [Error (not_found_text p)])
       \<or> (\<exists>m. fst (load_model_cached jl p st) = (Inr (Some m), []))
       \<or> (\<exists>e. fst (load_model_cached jl p st) = (Inl e, []))"
proof (cases "cache st p")
  case None
  then show ?thesis
    by (auto simp: load_model_cached_def load_model_def Let_def split: sum.splits)
next
  case (Some c)
  obtain v els where c: "c = (v, els)" by (cases c)
  with Some assms have "els = (case v of None \<Rightarrow> [Error (not_found_text p)] | Some m \<Rightarrow> [])"
    unfolding cache_wf_def by blast
  with Some c show ?thesis
    by (cases v) (simp_all add: load_model_cached_def)
qed

subsection \<open>The script\<close>

lemma script_unfold:
  "script jl u st =
     (case load_model_cached jl model_path st of
        ((Inl e, els0), st1) \<Rightarrow> ((els0, Uncaught e), st1)
      | ((Inr mdl, els0), st1) \<Rightarrow>
          (let a = IntV (case amine_widget u of None \<Rightarrow> 300 | Some r \<Rightarrow> \<lfloor>clamp 241 740 r\<rfloor>);
               f = IntV (case air_widget u of None \<Rightarrow> 180 | Some r \<Rightarrow> \<lfloor>clamp 175 372 r\<rfloor>);
               i = IntV (case iron_widget u of None \<Rightarrow> 63 | Some r \<Rightarrow> \<lfloor>clamp 62 69 r\<rfloor>);
               r = prediction_logic mdl a f i (button_clicked u) st1
           in ((els0 @ [Slider amine_label a, Slider air_label f, Slider iron_label i] @ fst (fst r),
                snd (fst r)), snd r)))"
  by (simp add: script_def sidebar_def AmineFlow_value AirFlow_value Iron_value
        sidebar_elements_def Let_def split: prod.splits sum.splits)

lemma script_no_model:
  assumes "cache st model_path = Some (None, els0)"
  shows "\<exists>a f i. script jl u st =
           ((els0 @ [Slider amine_label (IntV a), Slider air_label (IntV f),
                     Slider iron_label (IntV i), Warning warning_text], Completed), st)"
  using assms
  by (simp add: script_unfold load_model_cached_hit prediction_logic_None Let_def)

lemma session_no_model:
  assumes "cache st model_path = Some (None, els0)"
  shows "snd (session rs st) = st
       \<and> (\<forall>r \<in> set (fst (session rs st)).
            \<exists>a f i. r = (els0 @ [Slider amine_label (IntV a), Slider air_label (IntV f),
                                  Slider iron_label (IntV i), Warning warning_text], Completed))"
proof (induction rs)
  case Nil
  show ?case by simp
next
  case (Cons x rs)
  obtain jl u where x: "x = (jl, u)" by (cases x)
  obtain a f i where s: "script jl u st =
           ((els0 @ [Slider amine_label (IntV a), Slider air_label (IntV f),
                     Slider iron_label (IntV i), Warning warning_text], Completed), st)"
    using script_no_model [OF assms] by blast
  show ?case using Cons.IH
    by (auto simp: x s split: prod.splits)
qed

lemma script_predict_calls:
  "predict_calls (snd (script jl u st)) = predict_calls st
   \<or> (\<exists>a f i. 241 \<le> a \<and> a \<le> 740 \<and> 175 \<le> f \<and> f \<le> 372 \<and> 62 \<le> i \<and> i \<le> 69
        \<and> predict_calls (snd (script jl u st))
            = predict_calls st @ [df_input (IntV a) (IntV f) (IntV i)])"
proof -
  obtain a f i where sb: "sidebar u = Inr (IntV a, IntV f, IntV i)"
    and r: "241 \<le> a" "a \<le> 740" "175 \<le> f" "f \<le> 372" "62 \<le> i" "i \<le> 69"
    using sidebar_range [of u] by blast
  obtain r0 els0 st1 where l: "load_model_cached jl model_path st = ((r0, els0), st1)"
    by (metis surj_pair)
  have p1: "predict_calls st1 = predict_calls st"
    using load_model_cached_predict_calls [of jl model_path st] l by simp
  show ?thesis
  proof (cases r0)
    case (Inl e)
    then show ?thesis using l p1 by (simp add: script_def)
  next
    case (Inr mdl)
    show ?thesis
    proof (cases "button_clicked u \<and> mdl \<noteq> None")
      case True
      then obtain m where m: "mdl = Some m" by auto
      have "predict_calls (snd (script jl u st))
              = predict_calls st @ [df_input (IntV a) (IntV f) (IntV i)]"
        using True m l Inr sb p1
        by (simp add: script_def prediction_logic_click split: prod.splits)
      with r show ?thesis by blast
    next
      case False
      then have "predict_calls (snd (script jl u st)) = predict_calls st"
        using l Inr sb p1
        by (cases mdl) (auto simp: script_def prediction_logic_None prediction_logic_idle
                         split: prod.splits)
      then show ?thesis by simp
    qed
  qed
qed

text \<open>
  C9. Every record handed to \<open>model.predict\<close> by a run of the script has exactly the
  three columns FlujoAmina, FlujoAireColumna1 and Hierro Concentrado, each with one
  cell, and each cell is an integer (never a float): a run either makes no call of
  \<open>predict\<close> or makes one call with such a record.
\<close>

theorem record_fields_are_integers:
  "predict_calls (snd (script jl u st)) = predict_calls st
   \<or> (\<exists>a f i. predict_calls (snd (script jl u st))
                 = predict_calls st
                   @ [[(''FlujoAmina'', [IntV a]), (''FlujoAireColumna1'', [IntV f]),
                       (''Hierro Concentrado'', [IntV i])]])"
  using script_predict_calls [of jl u st] by (auto simp: df_input_def)

lemma not_found_is_no_prediction_error: "not_found_text p \<noteq> error_text e"
  by (simp add: not_found_text_def error_text_def)

lemma script_idle_elements:
  assumes "cache_wf st" "\<not> button_clicked u"
  shows "\<exists>els0 a f i x. fst (fst (script jl u st))
            = els0 @ [Slider amine_label (IntV a), Slider air_label (IntV f),
                      Slider iron_label (IntV i), x]
          \<and> (els0 = [] \<or> els0 = [Error (not_found_text model_path)])
          \<and> (x = Button button_label \<or> x = Warning warning_text)
       \<or> fst (script jl u st) \<in> range (\<lambda>e. ([], Uncaught e))"
proof -
  obtain r0 els0 st1 where l: "load_model_cached jl model_path st = ((r0, els0), st1)"
    by (metis surj_pair)
  from load_model_cached_elements [OF assms(1), of jl model_path] l
  consider (none) "r0 = Inr None" "els0 = [Error (not_found_text model_path)]"
    | (some) m where "r0 = Inr (Some m)" "els0 = []"
    | (exn) e where "r0 = Inl e" "els0 = []"
    by auto
  then show ?thesis
  proof cases
    case none
    then show ?thesis using l assms(2)
      by (simp add: script_unfold prediction_logic_None Let_def)
  next
    case some
    then show ?thesis using l assms(2)
      by (simp add: script_unfold prediction_logic_idle Let_def)
  next
    case exn
    then show ?thesis using l by (simp add: script_unfold)
  qed
qed

text \<open>
  C8. In a run of the script in which the button is not pressed, whatever the sliders
  are set to, \<open>model.predict\<close> is not called and nothing of a prediction is rendered:
  no subheader, no success box, no info box and no prediction error.
\<close>

theorem no_click_no_prediction:
  assumes "cache_wf st" and "\<not> button_clicked u"
  shows "predict_calls (snd (script jl u st)) = predict_calls st
       \<and> (\<forall>s. Success s \<notin> set (fst (fst (script jl u st))))
       \<and> (\<forall>s. Subheader s \<notin> set (fst (fst (script jl u st))))
       \<and> (\<forall>s. Info s \<notin> set (fst (fst (script jl u st))))
       \<and> (\<forall>e. Error (error_text e) \<notin> set (fst (fst (script jl u st))))"
proof -
  have "predict_calls (snd (script jl u st)) = predict_calls st"
  proof -
    obtain r0 els0 st1 where l: "load_model_cached jl model_path st = ((r0, els0), st1)"
      by (metis surj_pair)
    have p1: "predict_calls st1 = predict_calls st"
      using load_model_cached_predict_calls [of jl model_path st] l by simp
    show ?thesis using l p1 assms(2)
      by (cases r0; cases "projr r0")
         (auto simp: script_unfold Let_def prediction_logic_None prediction_logic_idle)
  qed
  moreover from script_idle_elements [OF assms, of jl]
  have "(\<forall>s. Success s \<notin> set (fst (fst (script jl u st))))
       \<and> (\<forall>s. Subheader s \<notin> set (fst (fst (script jl u st))))
       \<and> (\<forall>s. Info s \<notin> set (fst (fst (script jl u st))))
       \<and> (\<forall>e. Error (error_text e) \<notin> set (fst (fst (script jl u st))))"
    by (auto simp: not_found_is_no_prediction_error not_found_is_no_prediction_error [THEN not_sym])
  ultimately show ?thesis by simp
qed

theorem no_click_no_prediction_witness:
  "cache_wf fresh \<and> \<not> button_clicked (untouched\<lparr>amine_widget := Some 500\<rparr>)
   \<and> predict_calls (snd (script disk_with_stub (untouched\<lparr>amine_widget := Some 500\<rparr>) fresh))
       = predict_calls fresh
   \<and> (\<forall>s. Success s \<notin> set (fst (fst (script disk_with_stub (untouched\<lparr>amine_widget := Some 500\<rparr>) fresh))))
   \<and> fst (script disk_with_stub (untouched\<lparr>amine_widget := Some 500\<rparr>) fresh)
       = ([Slider amine_label (IntV 500), Slider air_label (IntV 180),
           Slider iron_label (IntV 63), Button button_label], Completed)"
proof -
  have w: "cache_wf fresh" by (rule cache_wf_fresh)
  have n: "\<not> button_clicked (untouched\<lparr>amine_widget := Some 500\<rparr>)"
    by (simp add: untouched_def)
  have e: "fst (script disk_with_stub (untouched\<lparr>amine_widget := Some 500\<rparr>) fresh)
       = ([Slider amine_label (IntV 500), Slider air_label (IntV 180),
           Slider iron_label (IntV 63), Button button_label], Completed)"
    by (simp add: script_unfold load_model_cached_def load_model_def disk_with_stub_def
          fresh_def untouched_def prediction_logic_idle Let_def clamp_def)
  show ?thesis
    using w n e no_click_no_prediction [OF w n, of disk_with_stub] by simp
qed

lemma warning_text_contains:
  "sublist ''El modelo no pudo ser cargado'' warning_text"
proof -
  have "warning_text = [] @ ''El modelo no pudo ser cargado''
          @ ''. Por favor, verifica la ruta del archivo del modelo.''"
    by (simp add: warning_text_def)
  then show ?thesis unfolding sublist_def by blast
qed

lemma load_none_cached:
  assumes "cache_wf st" and "fst (fst (load_model_cached jl p st)) = Inr None"
  shows "fst (load_model_cached jl p st) = (Inr None, [Error (not_found_text p)])
       \<and> cache (snd (load_model_cached jl p st)) p = Some (None, [Error (not_found_text p)])
       \<and> predict_calls (snd (load_model_cached jl p st)) = predict_calls st"
proof -
  have f: "fst (load_model_cached jl p st) = (Inr None, [Error (not_found_text p)])"
    using load_model_cached_elements [OF assms(1), of jl p] assms(2) by auto
  then have "load_model_cached jl p st
               = ((Inr None, [Error (not_found_text p)]), snd (load_model_cached jl p st))"
    by (metis prod.collapse)
  then have "cache (snd (load_model_cached jl p st)) p = Some (None, [Error (not_found_text p)])"
    by (rule load_model_cached_stores)
  with f show ?thesis by (simp add: load_model_cached_predict_calls)
qed

lemma script_cache:
  "cache (snd (script jl u st)) = cache (snd (load_model_cached jl model_path st))"
proof -
  obtain r0 els0 st1 where l: "load_model_cached jl model_path st = ((r0, els0), st1)"
    by (metis surj_pair)
  show ?thesis
    using l prediction_logic_cache
    by (cases r0) (simp_all add: script_unfold Let_def)
qed

lemma script_cache_wf: "cache_wf st \<Longrightarrow> cache_wf (snd (script jl u st))"
  using load_model_cached_wf [of st jl model_path]
  by (simp add: cache_wf_def script_cache)

lemma session_cache_wf: "cache_wf st \<Longrightarrow> cache_wf (snd (session rs st))"
proof (induction rs arbitrary: st)
  case Nil
  then show ?case by simp
next
  case (Cons x rs)
  obtain jl u where x: "x = (jl, u)" by (cases x)
  from Cons.IH [OF script_cache_wf [OF Cons.prems, of jl u]] show ?case
    by (auto simp: x split: prod.splits)
qed

text \<open>
  C2. When the loader returns None in a run, then in that run and in every later run
  of the same process, whatever is then on disk and whatever the user does, the run
  completes showing the warning (whose text contains "El modelo no pudo ser cargado"),
  renders no button and no result, and \<open>model.predict\<close> is never called.
\<close>

theorem failed_load_blocks_prediction:
  assumes "cache_wf st"
    and "fst (fst (load_model_cached jl model_path st)) = Inr None"
  shows "(\<forall>r \<in> set (fst (session ((jl, u) # rs) st)).
            snd r = Completed
          \<and> Warning warning_text \<in> set (fst r)
          \<and> (\<forall>l. Button l \<notin> set (fst r))
          \<and> (\<forall>s. Success s \<notin> set (fst r)))
       \<and> predict_calls (snd (session ((jl, u) # rs) st)) = predict_calls st
       \<and> sublist ''El modelo no pudo ser cargado'' warning_text"
proof -
  let ?nf = "[Error (not_found_text model_path)]"
  note ld = load_none_cached [OF assms]
  obtain st1 where l: "load_model_cached jl model_path st = ((Inr None, ?nf), st1)"
    using ld by (metis prod.collapse)
  have c1: "cache st1 model_path = Some (None, ?nf)"
    using l by (rule load_model_cached_stores)
  have p1: "predict_calls st1 = predict_calls st"
    using load_model_cached_predict_calls [of jl model_path st] l by simp
  obtain a f i where s: "script jl u st =
      ((?nf @ [Slider amine_label (IntV a), Slider air_label (IntV f),
               Slider iron_label (IntV i), Warning warning_text], Completed), st1)"
    using l by (simp add: script_unfold prediction_logic_None Let_def)
  note rest = session_no_model [OF c1, of rs]
  have "session ((jl, u) # rs) st =
      ((?nf @ [Slider amine_label (IntV a), Slider air_label (IntV f),
               Slider iron_label (IntV i), Warning warning_text], Completed)
         # fst (session rs st1), st1)"
    using s rest by (auto split: prod.splits)
  then show ?thesis
    using rest p1 warning_text_contains by auto
qed

theorem failed_load_blocks_prediction_witness:
  "cache_wf fresh
   \<and> fst (fst (load_model_cached disk_missing model_path fresh)) = Inr None
   \<and> fst (session [(disk_missing, click), (disk_with_stub, click)] fresh)
       = [([Error (not_found_text model_path), Slider amine_label (IntV 300),
            Slider air_label (IntV 180), Slider iron_label (IntV 63),
            Warning warning_text], Completed),
          ([Error (not_found_text model_path), Slider amine_label (IntV 300),
            Slider air_label (IntV 180), Slider iron_label (IntV 63),
            Warning warning_text], Completed)]
   \<and> predict_calls (snd (session [(disk_missing, click), (disk_with_stub, click)] fresh))
       = predict_calls fresh"
proof -
  have w: "cache_wf fresh" by (rule cache_wf_fresh)
  have n: "fst (fst (load_model_cached disk_missing model_path fresh)) = Inr None"
    by (simp add: load_model_cached_def load_model_def disk_missing_def fresh_def)
  have s: "fst (session [(disk_missing, click), (disk_with_stub, click)] fresh)
       = [([Error (not_found_text model_path), Slider amine_label (IntV 300),
            Slider air_label (IntV 180), Slider iron_label (IntV 63),
            Warning warning_text], Completed),
          ([Error (not_found_text model_path), Slider amine_label (IntV 300),
            Slider air_label (IntV 180), Slider iron_label (IntV 63),
            Warning warning_text], Completed)]"
    by (simp add: script_unfold load_model_cached_def load_model_def disk_missing_def
          fresh_def click_def prediction_logic_None Let_def)
  show ?thesis
    using w n s failed_load_blocks_prediction [OF w n, of click "[(disk_with_stub, click)]"]
    by simp
qed

text \<open>
  C3 as amended. When \<open>joblib.load\<close> raises FileNotFoundError for a path not yet in the
  cache, the loader reads that path once and no other (no retry, no other path), emits
  the error box naming the path and returns None; the script, whose path is
  \<open>modeloproyecto.joblib\<close>, then completes with the warning, without a button and without
  calling \<open>model.predict\<close>. Any other exception of \<open>joblib.load\<close> is not handled.
\<close>

theorem missing_model_file:
  assumes "jl p = Inl e" and "cls e = FileNotFoundError" and "cache st p = None"
  shows "load_model_cached jl p st
           = ((Inr None, [Error (not_found_text p)]),
              st\<lparr>reads := reads st @ [p],
                 cache := (cache st)(p \<mapsto> (None, [Error (not_found_text p)]))\<rparr>)
       \<and> (p = model_path \<longrightarrow>
            (\<exists>a f i. script jl u st
               = (([Error (not_found_text p), Slider amine_label (IntV a),
                    Slider air_label (IntV f), Slider iron_label (IntV i),
                    Warning warning_text], Completed),
                  st\<lparr>reads := reads st @ [p],
                     cache := (cache st)(p \<mapsto> (None, [Error (not_found_text p)]))\<rparr>)))"
proof -
  have l: "load_model_cached jl p st
           = ((Inr None, [Error (not_found_text p)]),
              st\<lparr>reads := reads st @ [p],
                 cache := (cache st)(p \<mapsto> (None, [Error (not_found_text p)]))\<rparr>)"
    using assms by (simp add: load_model_cached_def load_model_def)
  then show ?thesis
    by (auto simp: script_unfold prediction_logic_None Let_def)
qed

theorem missing_model_file_witness:
  "disk_missing model_path = Inl (Exn FileNotFoundError (''No such file or directory: '' @ model_path))
   \<and> cache fresh model_path = None
   \<and> load_model_cached disk_missing model_path fresh
       = ((Inr None, [Error (not_found_text model_path)]),
          fresh\<lparr>reads := [model_path],
                cache := [model_path \<mapsto> (None, [Error (not_found_text model_path)])]\<rparr>)
   \<and> fst (script disk_missing click fresh)
       = ([Error (not_found_text model_path), Slider amine_label (IntV 300),
           Slider air_label (IntV 180), Slider iron_label (IntV 63),
           Warning warning_text], Completed)"
proof -
  have d: "disk_missing model_path
             = Inl (Exn FileNotFoundError (''No such file or directory: '' @ model_path))"
    by (simp add: disk_missing_def)
  have k: "cls (Exn FileNotFoundError (''No such file or directory: '' @ model_path))
             = FileNotFoundError"
    by simp
  have c: "cache fresh model_path = None" by (simp add: fresh_def)
  have s: "fst (script disk_missing click fresh)
       = ([Error (not_found_text model_path), Slider amine_label (IntV 300),
           Slider air_label (IntV 180), Slider iron_label (IntV 63),
           Warning warning_text], Completed)"
    by (simp add: script_unfold load_model_cached_def load_model_def disk_missing_def
          fresh_def click_def prediction_logic_None Let_def)
  show ?thesis
    using d c s missing_model_file [of disk_missing model_path _ fresh click, OF d k c]
    by (simp add: fresh_def)
qed

theorem unreadable_model_file_counterexample:
  "load_model_cached disk_unreadable model_path fresh
     = ((Inl (Exn PermissionError (''Permission denied: '' @ model_path)), []),
        fresh\<lparr>reads := [model_path]\<rparr>)
   \<and> fst (script disk_unreadable untouched fresh)
     = ([], Uncaught (Exn PermissionError (''Permission denied: '' @ model_path)))
   \<and> fst (fst (load_model_cached disk_unreadable model_path fresh)) \<noteq> Inr None
   \<and> Warning warning_text \<notin> set (fst (fst (script disk_unreadable untouched fresh)))"
  by (simp add: script_unfold load_model_cached_def load_model_def disk_unreadable_def
        fresh_def)

subsection \<open>The try block\<close>




lemma try_predict_raises:
  "predict m df = Inl e \<Longrightarrow> try_predict m df = except_Exception [] e"
  by (simp add: try_predict_def)









subsection \<open>Two decimals\<close>







lemma fixed2_in_hundredth:
  assumes "of_int k - 1 / 2 < x * 100" and "x * 100 < of_int k + 1 / 2" and "0 \<le> k" and "0 \<le> x"
  shows "hundredths x = nat k"
proof -
  have "round_half_even (x * 100) = k"
  proof (cases "of_int k \<le> x * 100")
    case True
    then have f: "\<lfloor>x * 100\<rfloor> = k" using assms(2) by (intro floor_unique) auto
    then show ?thesis using assms(2) by (simp add: round_half_even_def Let_def)
  next
    case False
    then have f: "\<lfloor>x * 100\<rfloor> = k - 1" using assms(1) by (intro floor_unique) auto
    then show ?thesis using assms(1) by (simp add: round_half_even_def Let_def)
  qed
  then show ?thesis using assms(4) by (simp add: hundredths_def)
qed





text \<open>
  C6 as amended. On every trigger the record is one row built from the three current
  values under the fixed names FlujoAmina, FlujoAireColumna1, Hierro Concentrado, in
  this order, whatever the loaded model was trained on, and it is handed to
  \<open>predict\<close> as it is, without a comparison with the model's schema. Whether a
  mismatch fails the prediction is up to \<open>predict\<close>: when it raises an instance of
  \<open>Exception\<close>, the run completes and shows that exception as the inline error.
\<close>

theorem record_built_on_trigger:
  "map fst (df_input a f i) = [''FlujoAmina'', ''FlujoAireColumna1'', ''Hierro Concentrado'']
   \<and> map snd (df_input a f i) = [[a], [f], [i]]
   \<and> predict_calls (snd (prediction_logic (Some m) a f i True st))
       = predict_calls st @ [df_input a f i]
   \<and> (\<forall>e. predict m (df_input a f i) = Inl e \<longrightarrow> is_Exception (cls e) \<longrightarrow>
          fst (prediction_logic (Some m) a f i True st)
            = ([Button button_label, Error (error_text e)], Completed))"
  by (simp add: df_input_def prediction_logic_click try_predict_raises except_Exception_def)

theorem record_built_on_trigger_witness:
  "predict checking_model (df_input (IntV 300) (IntV 180) (IntV 63))
     = Inl (Exn ValueError ''feature_names mismatch'')
   \<and> is_Exception (cls (Exn ValueError ''feature_names mismatch''))
   \<and> predict_calls (snd (prediction_logic (Some checking_model) (IntV 300) (IntV 180) (IntV 63)
                            True fresh))
       = [[(''FlujoAmina'', [IntV 300]), (''FlujoAireColumna1'', [IntV 180]),
           (''Hierro Concentrado'', [IntV 63])]]
   \<and> fst (prediction_logic (Some checking_model) (IntV 300) (IntV 180) (IntV 63) True fresh)
       = ([Button button_label, Error (error_text (Exn ValueError ''feature_names mismatch''))],
          Completed)"
proof -
  have p: "predict checking_model (df_input (IntV 300) (IntV 180) (IntV 63))
     = Inl (Exn ValueError ''feature_names mismatch'')"
    by (simp add: checking_model_def df_input_def)
  have x: "is_Exception (cls (Exn ValueError ''feature_names mismatch''))" by simp
  show ?thesis
    using p x record_built_on_trigger [of "IntV 300" "IntV 180" "IntV 63" checking_model fresh]
    by (simp add: fresh_def df_input_def)
qed

theorem unchecked_schema_counterexample:
  "feature_names unchecked_model = Some [''amine'', ''air'', ''iron'']
   \<and> map fst (df_input (IntV 300) (IntV 180) (IntV 63)) \<noteq> [''amine'', ''air'', ''iron'']
   \<and> fst (prediction_logic (Some unchecked_model) (IntV 300) (IntV 180) (IntV 63) True fresh)
       = ([Button button_label, Subheader subheader_text,
           Success (''**Rendimiento Predicho:** '' @ [CHR 0x60] @ ''2.00%'' @ [CHR 0x60]),
           Info info_text], Completed)"
proof -
  have "hundredths 2 = nat 200"
    by (rule fixed2_in_hundredth) simp_all
  then have "fixed2 2 = ''2.00''"
    by (simp add: fixed2_def dec_digits.simps digit_char_def)
  then have "try_predict unchecked_model (df_input (IntV 300) (IntV 180) (IntV 63))
     = ([Subheader subheader_text,
         Success (''**Rendimiento Predicho:** '' @ [CHR 0x60] @ ''2.00%'' @ [CHR 0x60]),
         Info info_text], Completed)"
    by (simp add: try_predict_def unchecked_model_def success_text_def)
  then show ?thesis
    by (simp add: prediction_logic_click unchecked_model_def df_input_def)
qed

end
